theory Spec2Isabelle
  imports Complex_Main
begin

section \<open>JavaScript values used by the two components\<close>

text \<open>
  Strings are lists of characters; a character stands for one code unit in the range
  U+0000 .. U+00FF. Names with code units beyond that range are outside this model.

  A JavaScript \<^verbatim>\<open>number\<close> is a finite value, \<^verbatim>\<open>NaN\<close> or one of the two infinities.
  The components only test numbers for truthiness and compare them with 80, so a finite
  double is represented by the rational it denotes.
\<close>

datatype jsnumber = Finite rat | NaN | PosInfinity | NegInfinity

text \<open>Truthiness of a number: \<^verbatim>\<open>0\<close> and \<^verbatim>\<open>NaN\<close> are falsy.\<close>

fun truthy :: "jsnumber \<Rightarrow> bool" where
  "truthy (Finite r) = (r \<noteq> 0)"
| "truthy NaN = False"
| "truthy PosInfinity = True"
| "truthy NegInfinity = True"

text \<open>\<^verbatim>\<open>v || d\<close> for an optional number \<open>v\<close> (\<open>None\<close> is \<^verbatim>\<open>undefined\<close>).\<close>

definition orNumber :: "jsnumber option \<Rightarrow> jsnumber \<Rightarrow> jsnumber" where
  "orNumber v d = (case v of None \<Rightarrow> d | Some n \<Rightarrow> if truthy n then n else d)"

text \<open>\<^verbatim>\<open>a >= b\<close> on numbers; every comparison with \<^verbatim>\<open>NaN\<close> is false.\<close>

fun js_ge :: "jsnumber \<Rightarrow> jsnumber \<Rightarrow> bool" where
  "js_ge NaN b = False"
| "js_ge a NaN = False"
| "js_ge (Finite a) (Finite b) = (b \<le> a)"
| "js_ge PosInfinity b = True"
| "js_ge a NegInfinity = True"
| "js_ge a b = False"

text \<open>\<^verbatim>\<open>s || d\<close> for an optional string: \<^verbatim>\<open>undefined\<close> and the empty string are falsy.\<close>

definition orString :: "string option \<Rightarrow> string \<Rightarrow> string" where
  "orString v d = (case v of None \<Rightarrow> d | Some s \<Rightarrow> if s = [] then d else s)"

text \<open>
  \<^verbatim>\<open>String.prototype.toLowerCase\<close> on U+0000 .. U+00FF: the letters A .. Z and the
  Latin-1 capitals U+00C0 .. U+00DE (without the multiplication sign U+00D7) move up by 32.
\<close>

definition toLowerCaseChar :: "char \<Rightarrow> char" where
  "toLowerCaseChar c =
     (let n = (of_char c :: nat)
      in if (65 \<le> n \<and> n \<le> 90) \<or> (192 \<le> n \<and> n \<le> 222 \<and> n \<noteq> 215)
         then char_of (n + 32) else c)"

definition toLowerCase :: "string \<Rightarrow> string" where
  "toLowerCase s = map toLowerCaseChar s"

text \<open>\<^verbatim>\<open>s.startsWith(t)\<close> and \<^verbatim>\<open>s.includes(t)\<close>: \<open>t\<close> occurs in \<open>s\<close> as a contiguous run.\<close>

fun startsWith :: "string \<Rightarrow> string \<Rightarrow> bool" where
  "startsWith s [] = True"
| "startsWith [] (y # ys) = False"
| "startsWith (x # xs) (y # ys) = (x = y \<and> startsWith xs ys)"

fun str_includes :: "string \<Rightarrow> string \<Rightarrow> bool" where
  "str_includes [] t = (t = [])"
| "str_includes (x # xs) t = (startsWith (x # xs) t \<or> str_includes xs t)"

text \<open>
  \<^verbatim>\<open>String.prototype.trim\<close>: white space and line terminators are removed at both ends.
  In U+0000 .. U+00FF these are TAB, LF, VT, FF, CR, SPACE and NO-BREAK SPACE.
\<close>

definition isWhiteSpace :: "char \<Rightarrow> bool" where
  "isWhiteSpace c = ((of_char c :: nat) \<in> {9, 10, 11, 12, 13, 32, 160})"

definition trim :: "string \<Rightarrow> string" where
  "trim s = rev (dropWhile isWhiteSpace (rev (dropWhile isWhiteSpace s)))"

text \<open>The decimal text of an array index or count, as a template literal prints it.\<close>

fun decimal :: "nat \<Rightarrow> string" where
  "decimal n =
     (if n < 10 then [''0123456789'' ! n]
      else decimal (n div 10) @ [''0123456789'' ! (n mod 10)])"

declare decimal.simps [simp del]

definition showInt :: "int \<Rightarrow> string" where
  "showInt k = (if k < 0 then ''-'' @ decimal (nat (- k)) else decimal (nat k))"

text \<open>
  \<^verbatim>\<open>Array.from(new Set(xs))\<close>: a \<^verbatim>\<open>Set\<close> keeps its elements in insertion order and
  \<^verbatim>\<open>add\<close> of an element already present changes nothing.
\<close>

definition set_add :: "'a list \<Rightarrow> 'a \<Rightarrow> 'a list" where
  "set_add s x = (if x \<in> set s then s else s @ [x])"

definition arrayFromSet :: "'a list \<Rightarrow> 'a list" where
  "arrayFromSet xs = foldl set_add [] xs"

section \<open>Data of the badge views\<close>

text \<open>
  The records follow the interfaces of the source. The fields \<^verbatim>\<open>id\<close> and \<^verbatim>\<open>name\<close> of
  \<^verbatim>\<open>StudentBadgeStatus\<close> are \<open>sid\<close> and \<open>sname\<close>, those of \<^verbatim>\<open>BadgeData\<close> are \<open>bid\<close> and
  \<open>bname\<close>. An optional field is an \<open>option\<close>.
\<close>

record StudentBadgeStatus =
  sid :: string
  sname :: string
  earned :: bool
  progress :: jsnumber
  earnedAt :: "string option"
  skillScore :: "jsnumber option"

datatype level = beginner | intermediate | advanced

record BadgeData =
  bid :: string
  bname :: string
  description :: string
  skill_name :: string
  level :: level
  badge_type :: "string option"
  studentsEarned :: "StudentBadgeStatus list"
  studentsNotEarned :: "StudentBadgeStatus list"

record EarnedBadge =
  badge_id :: string
  badge_name :: string
  earned_skill_name :: string
  badge_level :: string
  progress_percentage :: jsnumber
  earned_at :: string
  course_id :: string
  course_name :: string

subsection \<open>What the backend sends\<close>

text \<open>
  The module \<^verbatim>\<open>services/api\<close> is used through three calls. Their payloads:
  a skill-matrix record with its (possibly missing) list of skill names; a student of the
  analytics response with a (possibly missing) skill breakdown, a dictionary from skill
  name to an entry with a (possibly missing) score; the earned badges of one student with
  their count.
\<close>

record matrix =
  skills :: "string list option"

record skillData =
  score :: "jsnumber option"

record student =
  student_id :: string
  student_name :: string
  skillBreakdown :: "(string \<rightharpoonup> skillData) option"

record analytics =
  students :: "student list option"

record earnedBadgesData =
  data_badges :: "EarnedBadge list"
  total_badges :: int

text \<open>
  A rejected request carries an error; \<^verbatim>\<open>error.response?.data?.message\<close> reads through
  two optional objects.
\<close>

record errorData =
  message :: "string option"

record errorResponse =
  response_data :: "errorData option"

record apiError =
  response :: "errorResponse option"

definition errorMessage :: "apiError \<Rightarrow> string option" where
  "errorMessage error =
     (case response error of
        None \<Rightarrow> None
      | Some r \<Rightarrow> (case response_data r of None \<Rightarrow> None | Some d \<Rightarrow> message d))"

datatype 'a promise = Resolved 'a | Rejected apiError

record backend =
  getAllByCourse :: "string \<Rightarrow> matrix list option promise"
  getCourseStudentAnalytics :: "string \<Rightarrow> analytics option promise"
  getStudentEarnedBadges :: "string \<Rightarrow> earnedBadgesData promise"

subsection \<open>Observable effects\<close>

text \<open>
  Besides the React state, a handler issues network requests, writes to the console and
  raises toasts. They are recorded in order of occurrence.
\<close>

datatype request =
    GetAllByCourse string
  | GetCourseStudentAnalytics string
  | GetStudentEarnedBadges string

datatype event =
    Request request
  | ConsoleLog string
  | ConsoleLogWith string apiError
  | ConsoleError string apiError
  | ToastError string
  | ToastSuccess string

section \<open>BadgesDashboard: \<^verbatim>\<open>loadBadges\<close>\<close>

record dashboard =
  badges :: "BadgeData list"
  loading :: bool
  selectedBadge :: "string option"
  showEarned :: bool
  events :: "event list"

definition emit :: "event \<Rightarrow> dashboard \<Rightarrow> dashboard" where
  "emit e st = st\<lparr>events := events st @ [e]\<rparr>"

text \<open>Lines 55 .. 60: the skills of all matrices, in order; a matrix without a list adds none.\<close>

definition allSkills :: "matrix list \<Rightarrow> string list" where
  "allSkills skillMatrices =
     foldl (\<lambda>acc m. case skills m of None \<Rightarrow> acc | Some ss \<Rightarrow> acc @ ss) [] skillMatrices"

text \<open>Line 63.\<close>

definition uniqueSkills :: "matrix list \<Rightarrow> string list" where
  "uniqueSkills skillMatrices = arrayFromSet (allSkills skillMatrices)"

text \<open>
  Lines 73 .. 82: the badge of a skill when the analytics could not be loaded. The
  callback of \<^verbatim>\<open>map\<close> gets the skill name and its index; here they come as the pair
  \<open>(index, skillName)\<close> of \<open>enumerate\<close>.
\<close>

definition emptyBadge :: "nat \<times> string \<Rightarrow> BadgeData" where
  "emptyBadge p =
     (case p of (index, skillName) \<Rightarrow>
        \<lparr>bid = ''badge-'' @ decimal index,
         bname = skillName @ '' Badge'',
         description = ''Awarded for demonstrating proficiency in '' @ skillName,
         skill_name = skillName,
         level = intermediate,
         badge_type = Some ''skill'',
         studentsEarned = [],
         studentsNotEarned = []\<rparr>)"

text \<open>Lines 91 .. 98: the level of a badge, from the name of its skill.\<close>

definition badgeLevel :: "string \<Rightarrow> level" where
  "badgeLevel skillName =
     (let skillLower = toLowerCase skillName
      in if str_includes skillLower ''basic'' \<or> str_includes skillLower ''intro''
            \<or> str_includes skillLower ''fundamental''
         then beginner
         else if str_includes skillLower ''advanced'' \<or> str_includes skillLower ''expert''
            \<or> str_includes skillLower ''master''
         then advanced
         else intermediate)"

text \<open>
  Lines 105 .. 136: the body of the loop over the students. The pair holds the two arrays
  \<^verbatim>\<open>studentsEarned\<close> and \<^verbatim>\<open>studentsNotEarned\<close> (here \<open>earnedArr\<close>, \<open>notEarnedArr\<close>;
  \<open>skillScoreV\<close> is the local \<^verbatim>\<open>skillScore\<close>); \<open>stamp\<close> is the text that
  \<^verbatim>\<open>new Date(Date.now() - Math.random() * ...).toISOString()\<close> yields at this student.
\<close>

definition studentStep ::
  "(nat \<Rightarrow> string) \<Rightarrow> string \<Rightarrow> StudentBadgeStatus list \<times> StudentBadgeStatus list
     \<Rightarrow> nat \<times> student \<Rightarrow> StudentBadgeStatus list \<times> StudentBadgeStatus list" where
  "studentStep stamp skillName acc js =
     (case acc of (earnedArr, notEarnedArr) \<Rightarrow>
      case js of (j, student) \<Rightarrow>
       (case (case skillBreakdown student of None \<Rightarrow> None | Some sb \<Rightarrow> sb skillName) of
          Some skillData \<Rightarrow>
            (let skillScoreV = orNumber (score skillData) (Finite 0);
                 hasEarned = js_ge skillScoreV (Finite 80);
                 studentStatus =
                   \<lparr>sid = student_id student,
                    sname = student_name student,
                    earned = hasEarned,
                    progress = skillScoreV,
                    earnedAt = (if hasEarned then Some (stamp j) else None),
                    skillScore = Some skillScoreV\<rparr>
             in if hasEarned then (earnedArr @ [studentStatus], notEarnedArr)
                else (earnedArr, notEarnedArr @ [studentStatus]))
        | None \<Rightarrow>
            (earnedArr,
             notEarnedArr @
               [\<lparr>sid = student_id student,
                 sname = student_name student,
                 earned = False,
                 progress = Finite 0,
                 earnedAt = None,
                 skillScore = Some (Finite 0)\<rparr>])))"

text \<open>Lines 101 .. 137: both arrays after the loop; no loop without analytics or students.\<close>

definition partitionStudents ::
  "(nat \<Rightarrow> string) \<Rightarrow> analytics option \<Rightarrow> string
     \<Rightarrow> StudentBadgeStatus list \<times> StudentBadgeStatus list" where
  "partitionStudents stamp studentAnalytics skillName =
     (case studentAnalytics of
        None \<Rightarrow> ([], [])
      | Some a \<Rightarrow>
          (case students a of
             None \<Rightarrow> ([], [])
           | Some ss \<Rightarrow> foldl (studentStep stamp skillName) ([], []) (enumerate 0 ss)))"

text \<open>Lines 89 .. 149: the badge of a skill when the analytics were loaded.\<close>

definition skillBadge ::
  "(nat \<Rightarrow> nat \<Rightarrow> string) \<Rightarrow> analytics option \<Rightarrow> nat \<times> string \<Rightarrow> BadgeData" where
  "skillBadge clock studentAnalytics p =
     (case p of (index, skillName) \<Rightarrow>
        (case partitionStudents (clock index) studentAnalytics skillName of
           (earnedList, notEarnedList) \<Rightarrow>
             \<lparr>bid = ''badge-'' @ decimal index,
              bname = skillName @ '' Badge'',
              description = ''Awarded for demonstrating proficiency in '' @ skillName,
              skill_name = skillName,
              level = badgeLevel skillName,
              badge_type = Some ''skill'',
              studentsEarned = earnedList,
              studentsNotEarned = notEarnedList\<rparr>))"

text \<open>Lines 48 .. 51: the early return when the course has no skill matrix.\<close>

definition noSkillMatrix :: "dashboard \<Rightarrow> dashboard" where
  "noSkillMatrix st =
     (emit (ConsoleLog ''No skill matrix found for course'') st)\<lparr>badges := [], loading := False\<rparr>"

text \<open>
  Lines 39 .. 160. \<open>clock i j\<close> is the timestamp drawn for student \<open>j\<close> of skill \<open>i\<close>.
  The answer of the matrix request is \<open>None\<close> when the response carries no list. The
  \<^verbatim>\<open>finally\<close> block sets \<^verbatim>\<open>loading\<close> to false on every path.
\<close>

definition loadBadges ::
  "backend \<Rightarrow> (nat \<Rightarrow> nat \<Rightarrow> string) \<Rightarrow> string \<Rightarrow> dashboard \<Rightarrow> dashboard" where
  "loadBadges api clock courseId st =
     (let st1 = emit (Request (GetAllByCourse courseId)) (st\<lparr>loading := True\<rparr>)
      in case getAllByCourse api courseId of
           Rejected error \<Rightarrow>
             (emit (ToastError ''Failed to load badges'')
                (emit (ConsoleError ''Error loading badges:'' error) st1))
               \<lparr>badges := [], loading := False\<rparr>
         | Resolved None \<Rightarrow> noSkillMatrix st1
         | Resolved (Some skillMatrices) \<Rightarrow>
             if skillMatrices = [] then noSkillMatrix st1
             else
               (let unique = uniqueSkills skillMatrices;
                    st2 = emit (Request (GetCourseStudentAnalytics courseId)) st1
                in case getCourseStudentAnalytics api courseId of
                     Rejected error \<Rightarrow>
                       (emit (ConsoleLogWith ''Could not load student analytics:'' error) st2)
                         \<lparr>badges := map emptyBadge (enumerate 0 unique), loading := False\<rparr>
                   | Resolved studentAnalytics \<Rightarrow>
                       st2\<lparr>badges := map (skillBadge clock studentAnalytics) (enumerate 0 unique),
                           loading := False\<rparr>))"

section \<open>StudentBadgesTest: \<^verbatim>\<open>handleSearch\<close>\<close>

text \<open>
  The state variables \<^verbatim>\<open>badges\<close> and \<^verbatim>\<open>loading\<close> of this component are \<open>foundBadges\<close>
  and \<open>searching\<close>; \<open>effects\<close> records what the handler did, in order.
\<close>

record lookup =
  studentId :: string
  foundBadges :: "EarnedBadge list"
  totalBadges :: int
  searching :: bool
  searched :: bool
  effects :: "event list"

definition notify :: "event \<Rightarrow> lookup \<Rightarrow> lookup" where
  "notify e st = st\<lparr>effects := effects st @ [e]\<rparr>"

text \<open>Lines 446 .. 468.\<close>

definition handleSearch :: "backend \<Rightarrow> lookup \<Rightarrow> lookup" where
  "handleSearch api st =
     (if trim (studentId st) = []
      then notify (ToastError ''Please enter a student ID'') st
      else
        (let st1 = notify (Request (GetStudentEarnedBadges (studentId st))) (st\<lparr>searching := True\<rparr>)
         in case getStudentEarnedBadges api (studentId st) of
              Resolved d \<Rightarrow>
                (notify (ToastSuccess (''Found '' @ showInt (total_badges d) @ '' badges''))
                   (st1\<lparr>foundBadges := data_badges d, totalBadges := total_badges d,
                        searched := True\<rparr>))
                  \<lparr>searching := False\<rparr>
            | Rejected error \<Rightarrow>
                (notify (ToastError (orString (errorMessage error) ''Failed to fetch badges''))
                   (notify (ConsoleError ''Error fetching badges:'' error) st1))
                  \<lparr>foundBadges := [], totalBadges := 0, searched := True, searching := False\<rparr>))"

section \<open>Notions used to state the properties\<close>

text \<open>
  The score of a student for a skill as the specification reads the analytics response:
  the score of the student's entry for the skill, and 0 when the student has no entry for
  the skill or the entry has no score.
\<close>

definition recordedScore :: "student \<Rightarrow> string \<Rightarrow> jsnumber" where
  "recordedScore s skillName =
     (case skillBreakdown s of
        None \<Rightarrow> Finite 0
      | Some sb \<Rightarrow>
          (case sb skillName of
             None \<Rightarrow> Finite 0
           | Some d \<Rightarrow> (case score d of None \<Rightarrow> Finite 0 | Some n \<Rightarrow> n)))"

text \<open>
  The value of the local \<^verbatim>\<open>skillScore\<close> of the loop body (line 109), and 0 in its
  \<^verbatim>\<open>else\<close> branch (lines 132 and 133).
\<close>

definition skillScoreOf :: "student \<Rightarrow> string \<Rightarrow> jsnumber" where
  "skillScoreOf s skillName =
     (case (case skillBreakdown s of None \<Rightarrow> None | Some sb \<Rightarrow> sb skillName) of
        Some d \<Rightarrow> orNumber (score d) (Finite 0)
      | None \<Rightarrow> Finite 0)"

text \<open>The record the loop body pushes for student \<open>j\<close> (lines 112 .. 119 and 128 .. 134).\<close>

definition statusOf :: "(nat \<Rightarrow> string) \<Rightarrow> string \<Rightarrow> nat \<times> student \<Rightarrow> StudentBadgeStatus" where
  "statusOf stamp skillName js =
     \<lparr>sid = student_id (snd js),
      sname = student_name (snd js),
      earned = js_ge (skillScoreOf (snd js) skillName) (Finite 80),
      progress = skillScoreOf (snd js) skillName,
      earnedAt = (if js_ge (skillScoreOf (snd js) skillName) (Finite 80)
                  then Some (stamp (fst js)) else None),
      skillScore = Some (skillScoreOf (snd js) skillName)\<rparr>"

text \<open>The students present in an analytics response: none when it has no student list.\<close>

definition responseStudents :: "analytics option \<Rightarrow> student list" where
  "responseStudents studentAnalytics =
     (case studentAnalytics of
        None \<Rightarrow> []
      | Some a \<Rightarrow> (case students a of None \<Rightarrow> [] | Some ss \<Rightarrow> ss))"

text \<open>The position at which \<open>x\<close> is first seen in \<open>xs\<close> (the length of \<open>xs\<close> when it is not).\<close>

definition firstIndex :: "'a list \<Rightarrow> 'a \<Rightarrow> nat" where
  "firstIndex xs x = length (takeWhile (\<lambda>y. y \<noteq> x) xs)"

subsection \<open>A sample course\<close>

text \<open>
  Two matrices share the skill \<^verbatim>\<open>Loops\<close>, one matrix has no skill list. Of the three
  students one has passed \<^verbatim>\<open>Loops\<close>, one has not, one has no skill breakdown at all.
  The second backend answers the matrix request and fails the two others. The backend's
  count of earned badges (3) differs from the length of its badge list (0).
\<close>

definition demoMatrices :: "matrix list" where
  "demoMatrices =
     [\<lparr>skills = Some [''Intro to Advanced Topics'', ''Loops'']\<rparr>,
      \<lparr>skills = None\<rparr>,
      \<lparr>skills = Some [''Loops'', ''Expert Design'']\<rparr>]"

definition demoStudents :: "student list" where
  "demoStudents =
     [\<lparr>student_id = ''s1'', student_name = ''Ada'',
       skillBreakdown = Some [''Loops'' \<mapsto> \<lparr>score = Some (Finite 85)\<rparr>,
                              ''Intro to Advanced Topics'' \<mapsto> \<lparr>score = None\<rparr>]\<rparr>,
      \<lparr>student_id = ''s2'', student_name = ''Bob'',
       skillBreakdown = Some [''Loops'' \<mapsto> \<lparr>score = Some (Finite 60)\<rparr>]\<rparr>,
      \<lparr>student_id = ''s3'', student_name = ''Cy'', skillBreakdown = None\<rparr>]"

definition demoError :: apiError where
  "demoError = \<lparr>response = Some \<lparr>response_data = Some \<lparr>message = Some ''Student not found''\<rparr>\<rparr>\<rparr>"

definition demoApi :: backend where
  "demoApi =
     \<lparr>getAllByCourse = (\<lambda>c. Resolved (Some demoMatrices)),
      getCourseStudentAnalytics = (\<lambda>c. Resolved (Some \<lparr>students = Some demoStudents\<rparr>)),
      getStudentEarnedBadges = (\<lambda>s. Resolved \<lparr>data_badges = [], total_badges = 3\<rparr>)\<rparr>"

definition demoApiDown :: backend where
  "demoApiDown =
     \<lparr>getAllByCourse = (\<lambda>c. Resolved (Some demoMatrices)),
      getCourseStudentAnalytics = (\<lambda>c. Rejected demoError),
      getStudentEarnedBadges = (\<lambda>s. Rejected demoError)\<rparr>"

definition demoClock :: "nat \<Rightarrow> nat \<Rightarrow> string" where
  "demoClock i j = ''2025-06-01T12:00:00.000Z''"

definition demoDashboard :: dashboard where
  "demoDashboard = \<lparr>badges = [], loading = True, selectedBadge = None, showEarned = True, events = []\<rparr>"

definition demoLookup :: lookup where
  "demoLookup =
     \<lparr>studentId = ''s1'', foundBadges = [], totalBadges = 0, searching = False,
      searched = False, effects = []\<rparr>"

section \<open>Insertion-ordered sets\<close>

lemma foldl_set_add_set: "set (foldl set_add acc xs) = set acc \<union> set xs"
  by (induction xs arbitrary: acc) (auto simp: set_add_def)

lemma foldl_set_add_distinct: "distinct acc \<Longrightarrow> distinct (foldl set_add acc xs)"
  by (induction xs arbitrary: acc) (auto simp: set_add_def)

lemma set_arrayFromSet: "set (arrayFromSet xs) = set xs"
  by (simp add: arrayFromSet_def foldl_set_add_set)

lemma distinct_arrayFromSet: "distinct (arrayFromSet xs)"
  by (simp add: arrayFromSet_def foldl_set_add_distinct)

lemma length_arrayFromSet: "length (arrayFromSet xs) = card (set xs)"
  using distinct_card [OF distinct_arrayFromSet, of xs] by (simp add: set_arrayFromSet)

lemma arrayFromSet_snoc: "arrayFromSet (xs @ [x]) = set_add (arrayFromSet xs) x"
  by (simp add: arrayFromSet_def)

lemma firstIndex_less: "x \<in> set xs \<Longrightarrow> firstIndex xs x < length xs"
  unfolding firstIndex_def by (induction xs) auto

lemma firstIndex_append_mem: "x \<in> set xs \<Longrightarrow> firstIndex (xs @ ys) x = firstIndex xs x"
  unfolding firstIndex_def by (simp add: takeWhile_append1)

lemma firstIndex_snoc_new: "x \<notin> set xs \<Longrightarrow> firstIndex (xs @ [x]) x = length xs"
  unfolding firstIndex_def by (induction xs) auto

text \<open>
  Elements come out in the order in which they are first seen. The proof adds the elements
  one at a time at the end of the input, as \<^verbatim>\<open>Set.prototype.add\<close> does.
\<close>

lemma arrayFromSet_first_seen:
  "i < j \<Longrightarrow> j < length (arrayFromSet xs) \<Longrightarrow>
     firstIndex xs (arrayFromSet xs ! i) < firstIndex xs (arrayFromSet xs ! j)"
proof (induction xs arbitrary: i j rule: rev_induct)
  case Nil
  then show ?case by (simp add: arrayFromSet_def)
next
  case (snoc x xs)
  let ?u = "arrayFromSet xs"
  show ?case
  proof (cases "x \<in> set xs")
    case True
    then have u: "arrayFromSet (xs @ [x]) = ?u"
      by (simp add: arrayFromSet_snoc set_add_def set_arrayFromSet)
    from snoc.prems u have j: "j < length ?u" and i: "i < length ?u" by simp_all
    then have "?u ! i \<in> set xs" "?u ! j \<in> set xs"
      using set_arrayFromSet [of xs] nth_mem by blast+
    then show ?thesis
      using snoc.IH [OF snoc.prems(1) j] by (simp add: u firstIndex_append_mem)
  next
    case False
    then have u: "arrayFromSet (xs @ [x]) = ?u @ [x]"
      by (simp add: arrayFromSet_snoc set_add_def set_arrayFromSet)
    from snoc.prems u have j: "j \<le> length ?u" and i: "i < length ?u" by simp_all
    have mi: "?u ! i \<in> set xs"
      using i set_arrayFromSet [of xs] nth_mem by blast
    show ?thesis
    proof (cases "j < length ?u")
      case True
      then have "?u ! j \<in> set xs"
        using set_arrayFromSet [of xs] nth_mem by blast
      with mi show ?thesis
        using snoc.IH [OF snoc.prems(1) True] i True
        by (simp add: u firstIndex_append_mem nth_append)
    next
      case False
      with j have "j = length ?u" by simp
      then show ?thesis
        using i mi \<open>x \<notin> set xs\<close> firstIndex_less [OF mi]
        by (simp add: u nth_append firstIndex_append_mem firstIndex_snoc_new)
    qed
  qed
qed

section \<open>Strings\<close>

lemma startsWith_iff: "startsWith s t \<longleftrightarrow> (\<exists>post. s = t @ post)"
  by (induction s t rule: startsWith.induct) auto

text \<open>\<open>str_includes\<close> is the substring relation.\<close>

lemma str_includes_iff: "str_includes s t \<longleftrightarrow> (\<exists>pre post. s = pre @ t @ post)"
proof (induction s)
  case Nil
  then show ?case by auto
next
  case (Cons x xs)
  show ?case
  proof
    assume "str_includes (x # xs) t"
    then consider "startsWith (x # xs) t" | "str_includes xs t" by auto
    then show "\<exists>pre post. x # xs = pre @ t @ post"
    proof cases
      case 1
      then obtain post where "x # xs = t @ post" by (auto simp: startsWith_iff)
      then have "x # xs = [] @ t @ post" by simp
      then show ?thesis by blast
    next
      case 2
      with Cons.IH obtain pre post where "xs = pre @ t @ post" by blast
      then have "x # xs = (x # pre) @ t @ post" by simp
      then show ?thesis by blast
    qed
  next
    assume "\<exists>pre post. x # xs = pre @ t @ post"
    then obtain pre post where eq: "x # xs = pre @ t @ post" by blast
    show "str_includes (x # xs) t"
    proof (cases pre)
      case Nil
      with eq have "startsWith (x # xs) t" by (auto simp: startsWith_iff)
      then show ?thesis by simp
    next
      case (Cons p pre')
      with eq have "xs = pre' @ t @ post" by simp
      with Cons.IH have "str_includes xs t" by blast
      then show ?thesis by simp
    qed
  qed
qed

text \<open>Trimming leaves nothing exactly when the string is empty or all white space.\<close>

lemma trim_empty_iff: "trim s = [] \<longleftrightarrow> (\<forall>c \<in> set s. isWhiteSpace c)"
proof
  assume "trim s = []"
  then have "dropWhile isWhiteSpace (rev (dropWhile isWhiteSpace s)) = []"
    by (simp add: trim_def)
  then have "\<forall>c \<in> set (dropWhile isWhiteSpace s). isWhiteSpace c"
    by simp
  moreover have "dropWhile isWhiteSpace s \<noteq> [] \<Longrightarrow> \<not> isWhiteSpace (hd (dropWhile isWhiteSpace s))"
    by (rule hd_dropWhile)
  ultimately have "dropWhile isWhiteSpace s = []"
    using hd_in_set by blast
  then show "\<forall>c \<in> set s. isWhiteSpace c"
    by simp
next
  assume "\<forall>c \<in> set s. isWhiteSpace c"
  then have d: "dropWhile isWhiteSpace s = []" by simp
  show "trim s = []" by (simp only: trim_def d rev.simps dropWhile.simps)
qed

lemma decimal_not_Nil: "decimal n \<noteq> []"
  by (subst decimal.simps) simp

lemma digit_inj:
  assumes "m < 10" "n < 10" "''0123456789'' ! m = ''0123456789'' ! n"
  shows "m = n"
proof -
  have "distinct ''0123456789''" by simp
  moreover have "m < length ''0123456789''" "n < length ''0123456789''"
    using assms by simp_all
  ultimately show ?thesis
    using assms(3) nth_eq_iff_index_eq by blast
qed

text \<open>Different numbers have different decimal texts.\<close>

lemma decimal_inj: "decimal m = decimal n \<Longrightarrow> m = n"
proof (induction m arbitrary: n rule: decimal.induct)
  case (1 m)
  show ?case
  proof (cases "m < 10")
    case True
    then have dm: "decimal m = [''0123456789'' ! m]"
      by (subst decimal.simps) simp
    show ?thesis
    proof (cases "n < 10")
      case True
      then have "decimal n = [''0123456789'' ! n]"
        by (subst decimal.simps) simp
      with dm "1.prems" have "''0123456789'' ! m = ''0123456789'' ! n" by simp
      with \<open>m < 10\<close> True show ?thesis by (rule digit_inj)
    next
      case False
      then have "decimal n = decimal (n div 10) @ [''0123456789'' ! (n mod 10)]"
        by (subst decimal.simps) simp
      with dm "1.prems" have "decimal (n div 10) = []" by simp
      then show ?thesis by (simp add: decimal_not_Nil)
    qed
  next
    case False
    then have dm: "decimal m = decimal (m div 10) @ [''0123456789'' ! (m mod 10)]"
      by (subst decimal.simps) simp
    show ?thesis
    proof (cases "n < 10")
      case True
      then have "decimal n = [''0123456789'' ! n]"
        by (subst decimal.simps) simp
      with dm "1.prems" have "decimal (m div 10) = []" by simp
      then show ?thesis by (simp add: decimal_not_Nil)
    next
      case n: False
      then have "decimal n = decimal (n div 10) @ [''0123456789'' ! (n mod 10)]"
        by (subst decimal.simps) simp
      with dm "1.prems" have q: "decimal (m div 10) = decimal (n div 10)"
        and r: "''0123456789'' ! (m mod 10) = ''0123456789'' ! (n mod 10)" by simp_all
      from "1.IH" [OF False q] have "m div 10 = n div 10" .
      moreover have "m mod 10 = n mod 10"
        using r by (intro digit_inj) simp_all
      ultimately show ?thesis
        by (metis div_mult_mod_eq)
    qed
  qed
qed

section \<open>The skills of a course\<close>

lemma allSkills_aux:
  "foldl (\<lambda>acc m. case skills m of None \<Rightarrow> acc | Some ss \<Rightarrow> acc @ ss) acc ms
     = acc @ concat (map (\<lambda>m. case skills m of None \<Rightarrow> [] | Some ss \<Rightarrow> ss) ms)"
  by (induction ms arbitrary: acc) (auto split: option.splits)

lemma allSkills_concat:
  "allSkills ms = concat (map (\<lambda>m. case skills m of None \<Rightarrow> [] | Some ss \<Rightarrow> ss) ms)"
  by (simp add: allSkills_def allSkills_aux)

lemma set_allSkills:
  "set (allSkills ms) = {sk. \<exists>m \<in> set ms. \<exists>ss. skills m = Some ss \<and> sk \<in> set ss}"
  by (auto simp: allSkills_concat split: option.splits) (metis)

lemma uniqueSkills_Nil: "uniqueSkills [] = []"
  by (simp add: uniqueSkills_def allSkills_def arrayFromSet_def)

lemma distinct_uniqueSkills: "distinct (uniqueSkills ms)"
  by (simp add: uniqueSkills_def distinct_arrayFromSet)

lemma set_uniqueSkills: "set (uniqueSkills ms) = set (allSkills ms)"
  by (simp add: uniqueSkills_def set_arrayFromSet)

lemma length_uniqueSkills: "length (uniqueSkills ms) = card (set (allSkills ms))"
  by (simp add: uniqueSkills_def length_arrayFromSet)

lemma allSkills_demo:
  "allSkills demoMatrices = [''Intro to Advanced Topics'', ''Loops'', ''Loops'', ''Expert Design'']"
  by (simp add: allSkills_def demoMatrices_def)

lemma uniqueSkills_demo:
  "uniqueSkills demoMatrices = [''Intro to Advanced Topics'', ''Loops'', ''Expert Design'']"
  by (simp add: uniqueSkills_def allSkills_demo arrayFromSet_def set_add_def)

section \<open>The loop over the students\<close>

text \<open>
  Whether the badge is earned can be read off the recorded score: replacing a falsy score
  (0 or \<^verbatim>\<open>NaN\<close>) by 0 does not change the comparison with 80.
\<close>

lemma js_ge_orNumber:
  "js_ge (orNumber v (Finite 0)) (Finite 80)
     = js_ge (case v of None \<Rightarrow> Finite 0 | Some n \<Rightarrow> n) (Finite 80)"
proof (cases v)
  case None
  then show ?thesis by (simp add: orNumber_def)
next
  case (Some n)
  then show ?thesis by (cases n) (simp_all add: orNumber_def)
qed

lemma hasEarned_recorded:
  "js_ge (skillScoreOf s sk) (Finite 80) = js_ge (recordedScore s sk) (Finite 80)"
  by (simp add: skillScoreOf_def recordedScore_def js_ge_orNumber split: option.splits)

lemma skillScoreOf_no_entry:
  "skillBreakdown s = None \<or> (\<exists>sb. skillBreakdown s = Some sb \<and> sb sk = None) \<Longrightarrow>
   skillScoreOf s sk = Finite 0"
  by (auto simp: skillScoreOf_def)

text \<open>One round of the loop pushes the student's record to exactly one of the two arrays.\<close>

lemma studentStep_status:
  "studentStep stamp sk (E, N) js =
     (if js_ge (skillScoreOf (snd js) sk) (Finite 80)
      then (E @ [statusOf stamp sk js], N) else (E, N @ [statusOf stamp sk js]))"
  by (cases js) (simp add: studentStep_def statusOf_def skillScoreOf_def Let_def split: option.splits)

lemma foldl_studentStep:
  "foldl (studentStep stamp sk) (E, N) js =
     (E @ map (statusOf stamp sk) (filter (\<lambda>p. js_ge (skillScoreOf (snd p) sk) (Finite 80)) js),
      N @ map (statusOf stamp sk) (filter (\<lambda>p. \<not> js_ge (skillScoreOf (snd p) sk) (Finite 80)) js))"
  by (induction js arbitrary: E N) (simp_all add: studentStep_status)

lemma partitionStudents_filter:
  "partitionStudents stamp sa sk =
     (map (statusOf stamp sk)
        (filter (\<lambda>p. js_ge (skillScoreOf (snd p) sk) (Finite 80)) (enumerate 0 (responseStudents sa))),
      map (statusOf stamp sk)
        (filter (\<lambda>p. \<not> js_ge (skillScoreOf (snd p) sk) (Finite 80)) (enumerate 0 (responseStudents sa))))"
  by (simp add: partitionStudents_def responseStudents_def foldl_studentStep split: option.splits)

lemma filter_snd_enumerate:
  "map snd (filter (\<lambda>p. P (snd p)) (enumerate n xs)) = filter P xs"
  by (induction xs arbitrary: n) simp_all

lemma map_sid_statusOf:
  "map sid (map (statusOf stamp sk) (filter (\<lambda>p. P (snd p)) (enumerate 0 ss)))
     = map student_id (filter P ss)"
proof -
  have "map sid (map (statusOf stamp sk) (filter (\<lambda>p. P (snd p)) (enumerate 0 ss)))
      = map student_id (map snd (filter (\<lambda>p. P (snd p)) (enumerate 0 ss)))"
    by (simp add: statusOf_def)
  then show ?thesis by (simp only: filter_snd_enumerate)
qed

lemma map_progress_statusOf:
  "map progress (map (statusOf stamp sk) (filter (\<lambda>p. P (snd p)) (enumerate 0 ss)))
     = map (\<lambda>s. skillScoreOf s sk) (filter P ss)"
proof -
  have "map progress (map (statusOf stamp sk) (filter (\<lambda>p. P (snd p)) (enumerate 0 ss)))
      = map (\<lambda>s. skillScoreOf s sk) (map snd (filter (\<lambda>p. P (snd p)) (enumerate 0 ss)))"
    by (simp add: statusOf_def)
  then show ?thesis by (simp only: filter_snd_enumerate)
qed

lemma statusOf_earned:
  "js_ge (skillScoreOf (snd p) sk) (Finite 80) \<Longrightarrow>
   earned (statusOf stamp sk p) \<and> earnedAt (statusOf stamp sk p) = Some (stamp (fst p)) \<and>
   skillScore (statusOf stamp sk p) = Some (progress (statusOf stamp sk p))"
  by (simp add: statusOf_def)

lemma statusOf_notEarned:
  "\<not> js_ge (skillScoreOf (snd p) sk) (Finite 80) \<Longrightarrow>
   \<not> earned (statusOf stamp sk p) \<and> earnedAt (statusOf stamp sk p) = None \<and>
   skillScore (statusOf stamp sk p) = Some (progress (statusOf stamp sk p))"
  by (simp add: statusOf_def)

lemma partitionStudents_invariant:
  "(\<forall>r \<in> set (fst (partitionStudents stamp sa sk)).
      earned r \<and> earnedAt r \<noteq> None \<and> skillScore r = Some (progress r)) \<and>
   (\<forall>r \<in> set (snd (partitionStudents stamp sa sk)).
      \<not> earned r \<and> earnedAt r = None \<and> skillScore r = Some (progress r))"
  unfolding partitionStudents_filter
  by (auto simp: statusOf_earned statusOf_notEarned)

section \<open>The badge of a skill\<close>

lemma skill_name_emptyBadge: "skill_name (emptyBadge (i, sk)) = sk"
  by (simp add: emptyBadge_def)

lemma skill_name_skillBadge: "skill_name (skillBadge clock sa (i, sk)) = sk"
  by (simp add: skillBadge_def split: prod.splits)

lemma bid_emptyBadge: "bid (emptyBadge (i, sk)) = ''badge-'' @ decimal i"
  by (simp add: emptyBadge_def)

lemma bid_skillBadge: "bid (skillBadge clock sa (i, sk)) = ''badge-'' @ decimal i"
  by (simp add: skillBadge_def split: prod.splits)

lemma level_emptyBadge: "level (emptyBadge (i, sk)) = intermediate"
  by (simp add: emptyBadge_def)

lemma level_skillBadge: "level (skillBadge clock sa (i, sk)) = badgeLevel sk"
  by (simp add: skillBadge_def split: prod.splits)

lemma map_skill_name_emptyBadge: "map skill_name (map emptyBadge (enumerate n xs)) = xs"
  by (induction xs arbitrary: n) (simp_all add: skill_name_emptyBadge)

lemma map_skill_name_skillBadge: "map skill_name (map (skillBadge clock sa) (enumerate n xs)) = xs"
  by (induction xs arbitrary: n) (simp_all add: skill_name_skillBadge)

lemma skillBadge_partitions:
  "studentsEarned (skillBadge clock sa (i, sk)) =
     map (statusOf (clock i) sk)
       (filter (\<lambda>p. js_ge (skillScoreOf (snd p) sk) (Finite 80)) (enumerate 0 (responseStudents sa)))"
  "studentsNotEarned (skillBadge clock sa (i, sk)) =
     map (statusOf (clock i) sk)
       (filter (\<lambda>p. \<not> js_ge (skillScoreOf (snd p) sk) (Finite 80)) (enumerate 0 (responseStudents sa)))"
  by (simp_all add: skillBadge_def partitionStudents_filter)

lemma skillBadge_invariant:
  "(\<forall>r \<in> set (studentsEarned (skillBadge clock sa p)).
      earned r \<and> earnedAt r \<noteq> None \<and> skillScore r = Some (progress r)) \<and>
   (\<forall>r \<in> set (studentsNotEarned (skillBadge clock sa p)).
      \<not> earned r \<and> earnedAt r = None \<and> skillScore r = Some (progress r))"
proof -
  obtain i sk where p: "p = (i, sk)" by (cases p)
  obtain E N where q: "partitionStudents (clock i) sa sk = (E, N)"
    by (cases "partitionStudents (clock i) sa sk")
  show ?thesis
    using partitionStudents_invariant [of "clock i" sa sk]
    by (simp add: p q skillBadge_def)
qed

text \<open>The level is the one the substring rule assigns.\<close>

lemma badgeLevel_beginner_iff:
  "badgeLevel n = beginner \<longleftrightarrow>
     (\<exists>pre post. toLowerCase n = pre @ ''basic'' @ post) \<or>
     (\<exists>pre post. toLowerCase n = pre @ ''intro'' @ post) \<or>
     (\<exists>pre post. toLowerCase n = pre @ ''fundamental'' @ post)"
  unfolding str_includes_iff [symmetric] by (simp add: badgeLevel_def Let_def)

lemma badgeLevel_advanced_iff:
  "badgeLevel n = advanced \<longleftrightarrow>
     badgeLevel n \<noteq> beginner \<and>
     ((\<exists>pre post. toLowerCase n = pre @ ''advanced'' @ post) \<or>
      (\<exists>pre post. toLowerCase n = pre @ ''expert'' @ post) \<or>
      (\<exists>pre post. toLowerCase n = pre @ ''master'' @ post))"
  unfolding str_includes_iff [symmetric] by (simp add: badgeLevel_def Let_def)

lemma toLowerCase_demo:
  "toLowerCase ''Intro to Advanced Topics'' = ''intro to advanced topics''"
  "toLowerCase ''Loops'' = ''loops''"
  "toLowerCase ''Expert Design'' = ''expert design''"
  by (simp_all add: toLowerCase_def toLowerCaseChar_def char_of_def bit_Suc_0_iff)

lemma badgeLevel_demo:
  "badgeLevel ''Intro to Advanced Topics'' = beginner"
  "badgeLevel ''Loops'' = intermediate"
  "badgeLevel ''Expert Design'' = advanced"
  by (simp_all add: badgeLevel_def toLowerCase_demo)

section \<open>The paths of \<^verbatim>\<open>loadBadges\<close>\<close>

lemma loadBadges_rejected:
  "getAllByCourse api c = Rejected e \<Longrightarrow>
   loadBadges api clock c st =
     st\<lparr>badges := [], loading := False,
        events := events st @ [Request (GetAllByCourse c), ConsoleError ''Error loading badges:'' e,
                               ToastError ''Failed to load badges'']\<rparr>"
  by (simp add: loadBadges_def emit_def noSkillMatrix_def)

lemma loadBadges_no_matrix:
  "getAllByCourse api c = Resolved None \<or> getAllByCourse api c = Resolved (Some []) \<Longrightarrow>
   loadBadges api clock c st =
     st\<lparr>badges := [], loading := False,
        events := events st @ [Request (GetAllByCourse c), ConsoleLog ''No skill matrix found for course'']\<rparr>"
  by (auto simp add: loadBadges_def emit_def noSkillMatrix_def)

lemma loadBadges_no_analytics:
  "getAllByCourse api c = Resolved (Some ms) \<Longrightarrow> ms \<noteq> [] \<Longrightarrow>
   getCourseStudentAnalytics api c = Rejected e \<Longrightarrow>
   loadBadges api clock c st =
     st\<lparr>badges := map emptyBadge (enumerate 0 (uniqueSkills ms)), loading := False,
        events := events st @ [Request (GetAllByCourse c), Request (GetCourseStudentAnalytics c),
                               ConsoleLogWith ''Could not load student analytics:'' e]\<rparr>"
  by (simp add: loadBadges_def emit_def noSkillMatrix_def)

lemma loadBadges_analytics:
  "getAllByCourse api c = Resolved (Some ms) \<Longrightarrow> ms \<noteq> [] \<Longrightarrow>
   getCourseStudentAnalytics api c = Resolved sa \<Longrightarrow>
   loadBadges api clock c st =
     st\<lparr>badges := map (skillBadge clock sa) (enumerate 0 (uniqueSkills ms)), loading := False,
        events := events st @ [Request (GetAllByCourse c), Request (GetCourseStudentAnalytics c)]\<rparr>"
  by (simp add: loadBadges_def emit_def noSkillMatrix_def)

lemma badge_at_analytics:
  assumes "getAllByCourse api c = Resolved (Some ms)" "ms \<noteq> []"
    and "getCourseStudentAnalytics api c = Resolved sa"
    and "i < length (uniqueSkills ms)"
  shows "badges (loadBadges api clock c st) ! i = skillBadge clock sa (i, uniqueSkills ms ! i)"
  using assms by (simp add: loadBadges_analytics nth_enumerate_eq)

lemma badge_at_no_analytics:
  assumes "getAllByCourse api c = Resolved (Some ms)" "ms \<noteq> []"
    and "getCourseStudentAnalytics api c = Rejected e"
    and "i < length (uniqueSkills ms)"
  shows "badges (loadBadges api clock c st) ! i = emptyBadge (i, uniqueSkills ms ! i)"
  using assms by (simp add: loadBadges_no_analytics nth_enumerate_eq)

lemma level_at_analytics:
  assumes "getAllByCourse api c = Resolved (Some ms)" "ms \<noteq> []"
    and "getCourseStudentAnalytics api c = Resolved sa"
    and "i < length (uniqueSkills ms)"
  shows "level (badges (loadBadges api clock c st) ! i) = badgeLevel (uniqueSkills ms ! i)"
  by (simp add: badge_at_analytics [OF assms] level_skillBadge)

lemma level_at_no_analytics:
  assumes "getAllByCourse api c = Resolved (Some ms)" "ms \<noteq> []"
    and "getCourseStudentAnalytics api c = Rejected e"
    and "i < length (uniqueSkills ms)"
  shows "level (badges (loadBadges api clock c st) ! i) = intermediate"
  by (simp add: badge_at_no_analytics [OF assms] level_emptyBadge)

lemma badges_skill_names:
  assumes "getAllByCourse api c = Resolved (Some ms)"
  shows "map skill_name (badges (loadBadges api clock c st)) = uniqueSkills ms"
proof (cases "ms = []")
  case True
  with assms show ?thesis
    by (simp add: loadBadges_no_matrix uniqueSkills_Nil)
next
  case False
  show ?thesis
  proof (cases "getCourseStudentAnalytics api c")
    case (Resolved sa)
    with assms False show ?thesis
      by (simp add: loadBadges_analytics [OF assms False Resolved] map_skill_name_skillBadge
            del: map_map)
  next
    case (Rejected e)
    with assms False show ?thesis
      by (simp add: loadBadges_no_analytics [OF assms False Rejected] map_skill_name_emptyBadge
            del: map_map)
  qed
qed

lemma length_badges:
  assumes "getAllByCourse api c = Resolved (Some ms)"
  shows "length (badges (loadBadges api clock c st)) = length (uniqueSkills ms)"
  using arg_cong [OF badges_skill_names [OF assms], of length clock st] by simp

lemma badge_at:
  assumes "getAllByCourse api c = Resolved (Some ms)" and "i < length (uniqueSkills ms)"
  shows "bid (badges (loadBadges api clock c st) ! i) = ''badge-'' @ decimal i \<and>
         skill_name (badges (loadBadges api clock c st) ! i) = uniqueSkills ms ! i"
proof -
  from assms(2) have ne: "ms \<noteq> []" by (auto simp: uniqueSkills_Nil)
  show ?thesis
  proof (cases "getCourseStudentAnalytics api c")
    case (Resolved sa)
    show ?thesis
      by (simp add: badge_at_analytics [OF assms(1) ne Resolved assms(2)] bid_skillBadge
            skill_name_skillBadge)
  next
    case (Rejected e)
    show ?thesis
      by (simp add: badge_at_no_analytics [OF assms(1) ne Rejected assms(2)] bid_emptyBadge
            skill_name_emptyBadge)
  qed
qed

text \<open>Whatever the backend answers, the badges are of one of three shapes.\<close>

lemma loadBadges_badges_cases:
  "badges (loadBadges api clock c st) = [] \<or>
   (\<exists>u. badges (loadBadges api clock c st) = map emptyBadge (enumerate 0 u)) \<or>
   (\<exists>u sa. badges (loadBadges api clock c st) = map (skillBadge clock sa) (enumerate 0 u))"
proof (cases "getAllByCourse api c")
  case (Rejected e)
  then show ?thesis by (simp add: loadBadges_rejected)
next
  case (Resolved mo)
  show ?thesis
  proof (cases "mo = None \<or> mo = Some []")
    case True
    with Resolved have "getAllByCourse api c = Resolved None \<or> getAllByCourse api c = Resolved (Some [])"
      by auto
    then show ?thesis by (simp add: loadBadges_no_matrix)
  next
    case False
    then obtain ms where ms: "mo = Some ms" "ms \<noteq> []" by auto
    with Resolved have g: "getAllByCourse api c = Resolved (Some ms)" by simp
    show ?thesis
    proof (cases "getCourseStudentAnalytics api c")
      case (Resolved sa)
      show ?thesis
        unfolding loadBadges_analytics [OF g ms(2) Resolved] by auto
    next
      case (Rejected e)
      show ?thesis
        unfolding loadBadges_no_analytics [OF g ms(2) Rejected] by auto
    qed
  qed
qed

section \<open>The paths of \<^verbatim>\<open>handleSearch\<close>\<close>

lemma handleSearch_blank:
  "trim (studentId st) = [] \<Longrightarrow>
   handleSearch api st = st\<lparr>effects := effects st @ [ToastError ''Please enter a student ID'']\<rparr>"
  by (simp add: handleSearch_def notify_def)



section \<open>Properties of the course badge derivation\<close>

text \<open>
  C1. When the skill matrices and the analytics are loaded, the badge of every skill splits
  the students of the analytics response in two: \<open>studentsEarned\<close> holds, in order, exactly
  the students whose score for the skill is at least 80, \<open>studentsNotEarned\<close> exactly the
  others, where a student without an entry for the skill, or with an entry without score,
  counts as score 0. So every student is in one of the two lists, the lengths add up to the
  number of students, and when the student ids are pairwise different no id is in both.
\<close>

theorem C1_partition_by_score:
  assumes "getAllByCourse api courseId = Resolved (Some ms)" and "ms \<noteq> []"
    and "getCourseStudentAnalytics api courseId = Resolved sa"
    and "i < length (uniqueSkills ms)"
  shows "let b = badges (loadBadges api clock courseId st) ! i;
             sk = uniqueSkills ms ! i;
             ss = responseStudents sa;
             earns = (\<lambda>s. js_ge (recordedScore s sk) (Finite 80))
         in skill_name b = sk \<and>
            map sid (studentsEarned b) = map student_id (filter earns ss) \<and>
            map sid (studentsNotEarned b) = map student_id (filter (\<lambda>s. \<not> earns s) ss) \<and>
            length (studentsEarned b) + length (studentsNotEarned b) = length ss \<and>
            (\<forall>s \<in> set ss. if earns s then student_id s \<in> set (map sid (studentsEarned b))
                                     else student_id s \<in> set (map sid (studentsNotEarned b))) \<and>
            (distinct (map student_id ss) \<longrightarrow>
               set (map sid (studentsEarned b)) \<inter> set (map sid (studentsNotEarned b)) = {})"
proof -
  define sk where "sk = uniqueSkills ms ! i"
  define b where "b = badges (loadBadges api clock courseId st) ! i"
  define ss where "ss = responseStudents sa"
  define earns where "earns = (\<lambda>s. js_ge (recordedScore s sk) (Finite 80))"
  have b: "b = skillBadge clock sa (i, sk)"
    unfolding b_def sk_def using assms by (rule badge_at_analytics)
  have name: "skill_name b = sk"
    by (simp add: b skill_name_skillBadge)
  have e: "map sid (studentsEarned b) = map student_id (filter earns ss)"
    unfolding b skillBadge_partitions hasEarned_recorded earns_def ss_def
    by (rule map_sid_statusOf)
  have n: "map sid (studentsNotEarned b) = map student_id (filter (\<lambda>s. \<not> earns s) ss)"
    unfolding b skillBadge_partitions hasEarned_recorded earns_def ss_def
    by (rule map_sid_statusOf)
  have len: "length (studentsEarned b) + length (studentsNotEarned b) = length ss"
  proof -
    have "length (map sid (studentsEarned b)) + length (map sid (studentsNotEarned b)) = length ss"
      unfolding e n by (simp add: sum_length_filter_compl)
    then show ?thesis by simp
  qed
  have mem: "\<forall>s \<in> set ss. if earns s then student_id s \<in> set (map sid (studentsEarned b))
                                     else student_id s \<in> set (map sid (studentsNotEarned b))"
    unfolding e n by auto
  have disj: "distinct (map student_id ss) \<longrightarrow>
               set (map sid (studentsEarned b)) \<inter> set (map sid (studentsNotEarned b)) = {}"
  proof
    assume d: "distinct (map student_id ss)"
    then have inj: "inj_on student_id (set ss)" by (simp add: distinct_map)
    show "set (map sid (studentsEarned b)) \<inter> set (map sid (studentsNotEarned b)) = {}"
      unfolding e n using inj by (auto dest: inj_onD)
  qed
  from name e n len mem disj show ?thesis
    unfolding Let_def b_def sk_def ss_def earns_def by blast
qed

theorem C1_partition_by_score_witness:
  "getAllByCourse demoApi ''c1'' = Resolved (Some demoMatrices) \<and> demoMatrices \<noteq> [] \<and>
   getCourseStudentAnalytics demoApi ''c1'' = Resolved (Some \<lparr>students = Some demoStudents\<rparr>) \<and>
   (1::nat) < length (uniqueSkills demoMatrices) \<and>
   skill_name (badges (loadBadges demoApi demoClock ''c1'' demoDashboard) ! 1) = ''Loops'' \<and>
   map sid (studentsEarned (badges (loadBadges demoApi demoClock ''c1'' demoDashboard) ! 1)) = [''s1''] \<and>
   map sid (studentsNotEarned (badges (loadBadges demoApi demoClock ''c1'' demoDashboard) ! 1))
     = [''s2'', ''s3'']"
proof -
  have h1: "getAllByCourse demoApi ''c1'' = Resolved (Some demoMatrices)"
    and h3: "getCourseStudentAnalytics demoApi ''c1'' = Resolved (Some \<lparr>students = Some demoStudents\<rparr>)"
    by (simp_all add: demoApi_def)
  have h2: "demoMatrices \<noteq> []" by (simp add: demoMatrices_def)
  have h4: "(1::nat) < length (uniqueSkills demoMatrices)" by (simp add: uniqueSkills_demo)
  show ?thesis
    using C1_partition_by_score [OF h1 h2 h3 h4, of demoClock demoDashboard] h1 h2 h3 h4
    by (simp add: Let_def uniqueSkills_demo responseStudents_def recordedScore_def demoStudents_def)
qed

text \<open>
  C2. When the skill matrices are loaded there is exactly one badge for every skill name
  that occurs in a matrix record, however often the name occurs: the skill names of the
  badges are pairwise different, they are the names collected from all matrix records,
  and the number of badges is the number of different names. This holds whether the
  analytics request succeeds or fails.
\<close>

theorem C2_one_badge_per_unique_skill:
  assumes "getAllByCourse api courseId = Resolved (Some ms)"
  shows "let bs = badges (loadBadges api clock courseId st);
             names = {sk. \<exists>m \<in> set ms. \<exists>ss. skills m = Some ss \<and> sk \<in> set ss}
         in distinct (map skill_name bs) \<and> set (map skill_name bs) = names \<and>
            length bs = card names \<and> names = set (allSkills ms)"
proof -
  have m: "map skill_name (badges (loadBadges api clock courseId st)) = uniqueSkills ms"
    using assms by (rule badges_skill_names)
  have l: "length (badges (loadBadges api clock courseId st)) = length (uniqueSkills ms)"
    using assms by (rule length_badges)
  show ?thesis
    unfolding Let_def m l set_allSkills [symmetric]
    by (simp add: distinct_uniqueSkills set_uniqueSkills length_uniqueSkills)
qed

theorem C2_one_badge_per_unique_skill_witness:
  "getAllByCourse demoApi ''c1'' = Resolved (Some demoMatrices) \<and>
   getAllByCourse demoApiDown ''c1'' = Resolved (Some demoMatrices) \<and>
   allSkills demoMatrices = [''Intro to Advanced Topics'', ''Loops'', ''Loops'', ''Expert Design''] \<and>
   card (set (allSkills demoMatrices)) = 3 \<and>
   length (badges (loadBadges demoApi demoClock ''c1'' demoDashboard)) = 3 \<and>
   length (badges (loadBadges demoApiDown demoClock ''c1'' demoDashboard)) = 3 \<and>
   distinct (map skill_name (badges (loadBadges demoApi demoClock ''c1'' demoDashboard))) \<and>
   distinct (map skill_name (badges (loadBadges demoApiDown demoClock ''c1'' demoDashboard)))"
proof -
  have h1: "getAllByCourse demoApi ''c1'' = Resolved (Some demoMatrices)"
    by (simp add: demoApi_def)
  have h2: "getAllByCourse demoApiDown ''c1'' = Resolved (Some demoMatrices)"
    by (simp add: demoApiDown_def)
  have c: "card (set (allSkills demoMatrices)) = 3"
    by (simp add: allSkills_demo)
  show ?thesis
    using C2_one_badge_per_unique_skill [OF h1, of demoClock demoDashboard]
      C2_one_badge_per_unique_skill [OF h2, of demoClock demoDashboard] h1 h2 allSkills_demo c
    by (simp add: Let_def)
qed

text \<open>
  C3. Badge levels and the substring rule. On the sample course the rule assigns
  \<open>beginner\<close>, \<open>intermediate\<close>, \<open>advanced\<close> to the three skills, and these are the levels
  of the badges when the analytics are loaded. When the analytics request fails all three
  badges are \<open>intermediate\<close>: the badges of lines 73 .. 82 carry a fixed level and not the
  level the rule assigns to their skill name.
\<close>

theorem C3_levels_without_analytics:
  "uniqueSkills demoMatrices = [''Intro to Advanced Topics'', ''Loops'', ''Expert Design''] \<and>
   map badgeLevel (uniqueSkills demoMatrices) = [beginner, intermediate, advanced] \<and>
   map level (badges (loadBadges demoApi demoClock ''c1'' demoDashboard))
     = [beginner, intermediate, advanced] \<and>
   getCourseStudentAnalytics demoApiDown ''c1'' = Rejected demoError \<and>
   map level (badges (loadBadges demoApiDown demoClock ''c1'' demoDashboard))
     = [intermediate, intermediate, intermediate]"
proof -
  have h1: "getAllByCourse demoApi ''c1'' = Resolved (Some demoMatrices)"
    and h2: "getCourseStudentAnalytics demoApi ''c1'' = Resolved (Some \<lparr>students = Some demoStudents\<rparr>)"
    by (simp_all add: demoApi_def)
  have h3: "getAllByCourse demoApiDown ''c1'' = Resolved (Some demoMatrices)"
    and h4: "getCourseStudentAnalytics demoApiDown ''c1'' = Rejected demoError"
    by (simp_all add: demoApiDown_def)
  have ne: "demoMatrices \<noteq> []" by (simp add: demoMatrices_def)
  have up: "map level (badges (loadBadges demoApi demoClock ''c1'' demoDashboard))
     = [beginner, intermediate, advanced]"
    by (simp add: loadBadges_analytics [OF h1 ne h2] uniqueSkills_demo enumerate_eq_zip
          level_skillBadge badgeLevel_demo upt_rec)
  have down: "map level (badges (loadBadges demoApiDown demoClock ''c1'' demoDashboard))
     = [intermediate, intermediate, intermediate]"
    by (simp add: loadBadges_no_analytics [OF h3 ne h4] uniqueSkills_demo enumerate_eq_zip
          level_emptyBadge upt_rec)
  show ?thesis
    by (simp add: up down h4 uniqueSkills_demo badgeLevel_demo)
qed

text \<open>
  C4. In the level classification the test for a beginner substring comes first: a skill
  whose lower-cased name contains one of \<open>basic\<close>, \<open>intro\<close>, \<open>fundamental\<close> and also one
  of \<open>advanced\<close>, \<open>expert\<close>, \<open>master\<close> is classified \<open>beginner\<close>, and so is its badge when
  the analytics are loaded. In particular \<open>Intro to Advanced Topics\<close> is \<open>beginner\<close>.
\<close>

theorem C4_beginner_precedes_advanced:
  assumes "getAllByCourse api courseId = Resolved (Some ms)" and "ms \<noteq> []"
    and "getCourseStudentAnalytics api courseId = Resolved sa"
    and "i < length (uniqueSkills ms)"
    and "str_includes (toLowerCase (uniqueSkills ms ! i)) ''basic'' \<or>
         str_includes (toLowerCase (uniqueSkills ms ! i)) ''intro'' \<or>
         str_includes (toLowerCase (uniqueSkills ms ! i)) ''fundamental''"
    and "str_includes (toLowerCase (uniqueSkills ms ! i)) ''advanced'' \<or>
         str_includes (toLowerCase (uniqueSkills ms ! i)) ''expert'' \<or>
         str_includes (toLowerCase (uniqueSkills ms ! i)) ''master''"
  shows "badgeLevel (uniqueSkills ms ! i) = beginner \<and>
         level (badges (loadBadges api clock courseId st) ! i) = beginner \<and>
         badgeLevel ''Intro to Advanced Topics'' = beginner"
proof -
  have "badgeLevel (uniqueSkills ms ! i) = beginner"
    using assms(5) by (simp add: badgeLevel_def Let_def)
  moreover have "level (badges (loadBadges api clock courseId st) ! i)
      = badgeLevel (uniqueSkills ms ! i)"
    using assms(1-4) by (rule level_at_analytics)
  ultimately show ?thesis
    by (simp add: badgeLevel_demo(1))
qed

theorem C4_beginner_precedes_advanced_witness:
  "uniqueSkills demoMatrices ! 0 = ''Intro to Advanced Topics'' \<and>
   str_includes (toLowerCase ''Intro to Advanced Topics'') ''intro'' \<and>
   str_includes (toLowerCase ''Intro to Advanced Topics'') ''advanced'' \<and>
   level (badges (loadBadges demoApi demoClock ''c1'' demoDashboard) ! 0) = beginner"
proof -
  have h1: "getAllByCourse demoApi ''c1'' = Resolved (Some demoMatrices)"
    and h3: "getCourseStudentAnalytics demoApi ''c1'' = Resolved (Some \<lparr>students = Some demoStudents\<rparr>)"
    by (simp_all add: demoApi_def)
  have h2: "demoMatrices \<noteq> []" by (simp add: demoMatrices_def)
  have h4: "0 < length (uniqueSkills demoMatrices)" by (simp add: uniqueSkills_demo)
  have u: "uniqueSkills demoMatrices ! 0 = ''Intro to Advanced Topics''"
    by (simp add: uniqueSkills_demo)
  have i: "str_includes (toLowerCase ''Intro to Advanced Topics'') ''intro''"
    and a: "str_includes (toLowerCase ''Intro to Advanced Topics'') ''advanced''"
    by (simp_all add: toLowerCase_demo)
  have h5: "str_includes (toLowerCase (uniqueSkills demoMatrices ! 0)) ''basic'' \<or>
         str_includes (toLowerCase (uniqueSkills demoMatrices ! 0)) ''intro'' \<or>
         str_includes (toLowerCase (uniqueSkills demoMatrices ! 0)) ''fundamental''"
    unfolding u using i by blast
  have h6: "str_includes (toLowerCase (uniqueSkills demoMatrices ! 0)) ''advanced'' \<or>
         str_includes (toLowerCase (uniqueSkills demoMatrices ! 0)) ''expert'' \<or>
         str_includes (toLowerCase (uniqueSkills demoMatrices ! 0)) ''master''"
    unfolding u using a by blast
  show ?thesis
    using C4_beginner_precedes_advanced [OF h1 h2 h3 h4 h5 h6, of demoClock demoDashboard] u i a
    by simp
qed

text \<open>
  C5. When the skill matrices are loaded (at least one record) and the analytics request
  fails, \<open>loadBadges\<close> ends normally: loading is over, there is one badge per deduplicated
  skill, every badge has both student lists empty, and the only trace of the failure is one
  console log; no error is written to the console and no toast is raised.
\<close>

theorem C5_analytics_failure_degrades:
  assumes "getAllByCourse api courseId = Resolved (Some ms)" and "ms \<noteq> []"
    and "getCourseStudentAnalytics api courseId = Rejected e"
  shows "loadBadges api clock courseId st =
           st\<lparr>badges := map emptyBadge (enumerate 0 (uniqueSkills ms)), loading := False,
              events := events st @
                [Request (GetAllByCourse courseId), Request (GetCourseStudentAnalytics courseId),
                 ConsoleLogWith ''Could not load student analytics:'' e]\<rparr> \<and>
         map skill_name (badges (loadBadges api clock courseId st)) = uniqueSkills ms \<and>
         (\<forall>b \<in> set (badges (loadBadges api clock courseId st)).
            studentsEarned b = [] \<and> studentsNotEarned b = [])"
proof -
  have eq: "loadBadges api clock courseId st =
           st\<lparr>badges := map emptyBadge (enumerate 0 (uniqueSkills ms)), loading := False,
              events := events st @
                [Request (GetAllByCourse courseId), Request (GetCourseStudentAnalytics courseId),
                 ConsoleLogWith ''Could not load student analytics:'' e]\<rparr>"
    using assms by (rule loadBadges_no_analytics)
  have names: "map skill_name (badges (loadBadges api clock courseId st)) = uniqueSkills ms"
    using assms(1) by (rule badges_skill_names)
  have empty: "\<forall>b \<in> set (badges (loadBadges api clock courseId st)).
            studentsEarned b = [] \<and> studentsNotEarned b = []"
    by (auto simp: eq emptyBadge_def)
  from eq names empty show ?thesis by blast
qed

theorem C5_analytics_failure_degrades_witness:
  "getAllByCourse demoApiDown ''c1'' = Resolved (Some demoMatrices) \<and> demoMatrices \<noteq> [] \<and>
   getCourseStudentAnalytics demoApiDown ''c1'' = Rejected demoError \<and>
   events (loadBadges demoApiDown demoClock ''c1'' demoDashboard) =
     [Request (GetAllByCourse ''c1''), Request (GetCourseStudentAnalytics ''c1''),
      ConsoleLogWith ''Could not load student analytics:'' demoError] \<and>
   loading (loadBadges demoApiDown demoClock ''c1'' demoDashboard) = False \<and>
   map skill_name (badges (loadBadges demoApiDown demoClock ''c1'' demoDashboard)) =
     [''Intro to Advanced Topics'', ''Loops'', ''Expert Design''] \<and>
   map studentsEarned (badges (loadBadges demoApiDown demoClock ''c1'' demoDashboard))
     = replicate 3 [] \<and>
   map studentsNotEarned (badges (loadBadges demoApiDown demoClock ''c1'' demoDashboard))
     = replicate 3 []"
proof -
  have h1: "getAllByCourse demoApiDown ''c1'' = Resolved (Some demoMatrices)"
    and h3: "getCourseStudentAnalytics demoApiDown ''c1'' = Rejected demoError"
    by (simp_all add: demoApiDown_def)
  have h2: "demoMatrices \<noteq> []" by (simp add: demoMatrices_def)
  have ev: "events demoDashboard = []" by (simp add: demoDashboard_def)
  note w = C5_analytics_failure_degrades [OF h1 h2 h3, of demoClock demoDashboard]
  have l: "length (badges (loadBadges demoApiDown demoClock ''c1'' demoDashboard)) = 3"
    using arg_cong [OF conjunct1 [OF conjunct2 [OF w]], of length] by (simp add: uniqueSkills_demo)
  have e: "map studentsEarned (badges (loadBadges demoApiDown demoClock ''c1'' demoDashboard))
      = replicate (length (badges (loadBadges demoApiDown demoClock ''c1'' demoDashboard))) []"
    using conjunct2 [OF conjunct2 [OF w]] by (simp add: map_replicate_const [symmetric])
  have n: "map studentsNotEarned (badges (loadBadges demoApiDown demoClock ''c1'' demoDashboard))
      = replicate (length (badges (loadBadges demoApiDown demoClock ''c1'' demoDashboard))) []"
    using conjunct2 [OF conjunct2 [OF w]] by (simp add: map_replicate_const [symmetric])
  have ev': "events (loadBadges demoApiDown demoClock ''c1'' demoDashboard) =
     [Request (GetAllByCourse ''c1''), Request (GetCourseStudentAnalytics ''c1''),
      ConsoleLogWith ''Could not load student analytics:'' demoError]"
    and lo: "loading (loadBadges demoApiDown demoClock ''c1'' demoDashboard) = False"
    by (simp_all add: conjunct1 [OF w] ev)
  show ?thesis
    using h1 h2 h3 conjunct1 [OF conjunct2 [OF w]] ev' lo
    by (simp add: e n l uniqueSkills_demo)
qed

text \<open>
  C6. When the skill-matrix request answers with no list or with an empty list,
  \<open>loadBadges\<close> ends with an empty badge list and loading over. It has made the matrix
  request and written one console log, nothing else: no error on the console, no toast,
  and no analytics request.
\<close>

theorem C6_no_skill_matrix:
  assumes "getAllByCourse api courseId = Resolved None \<or>
           getAllByCourse api courseId = Resolved (Some [])"
  shows "loadBadges api clock courseId st =
           st\<lparr>badges := [], loading := False,
              events := events st @
                [Request (GetAllByCourse courseId),
                 ConsoleLog ''No skill matrix found for course'']\<rparr> \<and>
         badges (loadBadges api clock courseId st) = [] \<and>
         Request (GetCourseStudentAnalytics courseId)
           \<notin> set (drop (length (events st)) (events (loadBadges api clock courseId st)))"
  by (simp add: loadBadges_no_matrix [OF assms])

theorem C6_no_skill_matrix_witness:
  "getAllByCourse (demoApi\<lparr>getAllByCourse := \<lambda>c. Resolved (Some [])\<rparr>) ''c1'' = Resolved (Some []) \<and>
   getAllByCourse (demoApi\<lparr>getAllByCourse := \<lambda>c. Resolved None\<rparr>) ''c1'' = Resolved None \<and>
   loadBadges (demoApi\<lparr>getAllByCourse := \<lambda>c. Resolved (Some [])\<rparr>) demoClock ''c1'' demoDashboard =
     \<lparr>badges = [], loading = False, selectedBadge = None, showEarned = True,
      events = [Request (GetAllByCourse ''c1''), ConsoleLog ''No skill matrix found for course'']\<rparr> \<and>
   loadBadges (demoApi\<lparr>getAllByCourse := \<lambda>c. Resolved None\<rparr>) demoClock ''c1'' demoDashboard =
     \<lparr>badges = [], loading = False, selectedBadge = None, showEarned = True,
      events = [Request (GetAllByCourse ''c1''), ConsoleLog ''No skill matrix found for course'']\<rparr>"
proof -
  have h1: "getAllByCourse (demoApi\<lparr>getAllByCourse := \<lambda>c. Resolved (Some [])\<rparr>) ''c1'' = Resolved None \<or>
            getAllByCourse (demoApi\<lparr>getAllByCourse := \<lambda>c. Resolved (Some [])\<rparr>) ''c1'' = Resolved (Some [])"
    by simp
  have h2: "getAllByCourse (demoApi\<lparr>getAllByCourse := \<lambda>c. Resolved None\<rparr>) ''c1'' = Resolved None \<or>
            getAllByCourse (demoApi\<lparr>getAllByCourse := \<lambda>c. Resolved None\<rparr>) ''c1'' = Resolved (Some [])"
    by simp
  show ?thesis
    using conjunct1 [OF C6_no_skill_matrix [OF h1, of demoClock demoDashboard]]
      conjunct1 [OF C6_no_skill_matrix [OF h2, of demoClock demoDashboard]]
    by (simp add: demoDashboard_def)
qed

text \<open>
  C7. The unique skills are the collected skill names without repetition, in the order in
  which the names are first seen in the collection. The badge at position \<open>i\<close> has the id
  \<open>badge-i\<close> (with \<open>i\<close> in decimal) and the skill name at position \<open>i\<close> of the unique
  skills, whether the analytics request succeeds or fails; so the ids of the badges are
  pairwise different.
\<close>

theorem C7_first_seen_order_and_ids:
  assumes "getAllByCourse api courseId = Resolved (Some ms)"
  shows "let bs = badges (loadBadges api clock courseId st); u = uniqueSkills ms
         in u = arrayFromSet (allSkills ms) \<and> distinct u \<and> set u = set (allSkills ms) \<and>
            (\<forall>i j. i < j \<and> j < length u \<longrightarrow>
               firstIndex (allSkills ms) (u ! i) < firstIndex (allSkills ms) (u ! j)) \<and>
            length bs = length u \<and>
            (\<forall>i < length u. bid (bs ! i) = ''badge-'' @ decimal i \<and> skill_name (bs ! i) = u ! i) \<and>
            distinct (map bid bs)"
proof -
  define bs where "bs = badges (loadBadges api clock courseId st)"
  define u where "u = uniqueSkills ms"
  have u: "u = arrayFromSet (allSkills ms)" by (simp add: u_def uniqueSkills_def)
  have d: "distinct u" by (simp add: u_def distinct_uniqueSkills)
  have s: "set u = set (allSkills ms)" by (simp add: u_def set_uniqueSkills)
  have ord: "\<forall>i j. i < j \<and> j < length u \<longrightarrow>
               firstIndex (allSkills ms) (u ! i) < firstIndex (allSkills ms) (u ! j)"
    unfolding u by (simp add: arrayFromSet_first_seen)
  have len: "length bs = length u"
    unfolding bs_def u_def using assms by (rule length_badges)
  have at: "\<forall>i < length u. bid (bs ! i) = ''badge-'' @ decimal i \<and> skill_name (bs ! i) = u ! i"
    unfolding bs_def u_def using badge_at [OF assms] by blast
  have ids: "distinct (map bid bs)"
  proof -
    have "map bid bs = map (\<lambda>i. ''badge-'' @ decimal i) [0..<length bs]"
      using at len by (intro nth_equalityI) simp_all
    moreover have "inj_on (\<lambda>i. ''badge-'' @ decimal i) (set [0..<length bs])"
      by (rule inj_onI) (simp add: decimal_inj)
    ultimately show ?thesis by (simp add: distinct_map)
  qed
  from u d s ord len at ids show ?thesis
    unfolding Let_def bs_def u_def by blast
qed

theorem C7_first_seen_order_and_ids_witness:
  "getAllByCourse demoApi ''c1'' = Resolved (Some demoMatrices) \<and>
   allSkills demoMatrices = [''Intro to Advanced Topics'', ''Loops'', ''Loops'', ''Expert Design''] \<and>
   uniqueSkills demoMatrices = [''Intro to Advanced Topics'', ''Loops'', ''Expert Design''] \<and>
   map bid (badges (loadBadges demoApi demoClock ''c1'' demoDashboard))
     = [''badge-0'', ''badge-1'', ''badge-2''] \<and>
   map skill_name (badges (loadBadges demoApi demoClock ''c1'' demoDashboard))
     = [''Intro to Advanced Topics'', ''Loops'', ''Expert Design'']"
proof -
  have h1: "getAllByCourse demoApi ''c1'' = Resolved (Some demoMatrices)"
    by (simp add: demoApi_def)
  note w = C7_first_seen_order_and_ids [OF h1, of demoClock demoDashboard, unfolded Let_def]
  have len: "length (badges (loadBadges demoApi demoClock ''c1'' demoDashboard)) = 3"
    using w by (simp add: uniqueSkills_demo)
  have d: "decimal 0 = ''0''" "decimal (Suc 0) = ''1''" "decimal 2 = ''2''"
    by (simp_all add: decimal.simps)
  have at: "i < length (uniqueSkills demoMatrices) \<Longrightarrow>
      bid (badges (loadBadges demoApi demoClock ''c1'' demoDashboard) ! i) = ''badge-'' @ decimal i \<and>
      skill_name (badges (loadBadges demoApi demoClock ''c1'' demoDashboard) ! i)
        = uniqueSkills demoMatrices ! i" for i
    using w by blast
  have b0: "bid (badges (loadBadges demoApi demoClock ''c1'' demoDashboard) ! 0) = ''badge-0'' \<and>
      skill_name (badges (loadBadges demoApi demoClock ''c1'' demoDashboard) ! 0)
        = ''Intro to Advanced Topics''"
    using at [of 0] by (simp add: uniqueSkills_demo d)
  have b1: "bid (badges (loadBadges demoApi demoClock ''c1'' demoDashboard) ! 1) = ''badge-1'' \<and>
      skill_name (badges (loadBadges demoApi demoClock ''c1'' demoDashboard) ! 1) = ''Loops''"
    using at [of 1] by (simp add: uniqueSkills_demo d)
  have b2: "bid (badges (loadBadges demoApi demoClock ''c1'' demoDashboard) ! 2) = ''badge-2'' \<and>
      skill_name (badges (loadBadges demoApi demoClock ''c1'' demoDashboard) ! 2) = ''Expert Design''"
    using at [of 2] by (simp add: uniqueSkills_demo d)
  have three: "length xs = 3 \<Longrightarrow> map f xs = [f (xs ! 0), f (xs ! 1), f (xs ! 2)]"
    for f :: "BadgeData \<Rightarrow> string" and xs
    by (auto simp: length_Suc_conv numeral_3_eq_3)
  have ids: "map bid (badges (loadBadges demoApi demoClock ''c1'' demoDashboard))
     = [''badge-0'', ''badge-1'', ''badge-2'']"
    by (simp only: three [OF len] b0 b1 b2)
  have names: "map skill_name (badges (loadBadges demoApi demoClock ''c1'' demoDashboard))
     = [''Intro to Advanced Topics'', ''Loops'', ''Expert Design'']"
    by (simp only: three [OF len] b0 b1 b2)
  show ?thesis
    using h1 allSkills_demo ids names by (simp add: uniqueSkills_demo)
qed

text \<open>
  C10. In every badge \<open>loadBadges\<close> produces, a record of \<open>studentsEarned\<close> has the earned
  flag set, an earned timestamp, and its skill score as progress; a record of
  \<open>studentsNotEarned\<close> has the earned flag unset, no earned timestamp, and its skill score
  as progress. When the analytics are loaded the progress values are the scores the loop
  computed for the students of the list, and a student with no entry for the skill is in
  \<open>studentsNotEarned\<close> with progress 0 and skill score 0.
\<close>

theorem C10_status_records:
  "(\<forall>b \<in> set (badges (loadBadges api clock courseId st)).
      (\<forall>r \<in> set (studentsEarned b).
         earned r \<and> earnedAt r \<noteq> None \<and> skillScore r = Some (progress r)) \<and>
      (\<forall>r \<in> set (studentsNotEarned b).
         \<not> earned r \<and> earnedAt r = None \<and> skillScore r = Some (progress r))) \<and>
   (getAllByCourse api courseId = Resolved (Some ms) \<and> ms \<noteq> [] \<and>
    getCourseStudentAnalytics api courseId = Resolved sa \<and> i < length (uniqueSkills ms) \<longrightarrow>
      (let b = badges (loadBadges api clock courseId st) ! i;
           sk = uniqueSkills ms ! i;
           ss = responseStudents sa
       in map progress (studentsEarned b) =
            map (\<lambda>s. skillScoreOf s sk) (filter (\<lambda>s. js_ge (skillScoreOf s sk) (Finite 80)) ss) \<and>
          map progress (studentsNotEarned b) =
            map (\<lambda>s. skillScoreOf s sk) (filter (\<lambda>s. \<not> js_ge (skillScoreOf s sk) (Finite 80)) ss) \<and>
          (\<forall>s \<in> set ss.
             skillBreakdown s = None \<or> (\<exists>sb. skillBreakdown s = Some sb \<and> sb sk = None) \<longrightarrow>
               \<lparr>sid = student_id s, sname = student_name s, earned = False, progress = Finite 0,
                earnedAt = None, skillScore = Some (Finite 0)\<rparr> \<in> set (studentsNotEarned b))))"
proof (intro conjI impI)
  show "\<forall>b \<in> set (badges (loadBadges api clock courseId st)).
      (\<forall>r \<in> set (studentsEarned b).
         earned r \<and> earnedAt r \<noteq> None \<and> skillScore r = Some (progress r)) \<and>
      (\<forall>r \<in> set (studentsNotEarned b).
         \<not> earned r \<and> earnedAt r = None \<and> skillScore r = Some (progress r))"
  proof
    fix b assume b: "b \<in> set (badges (loadBadges api clock courseId st))"
    from loadBadges_badges_cases [of api clock courseId st] b
    consider p where "b = emptyBadge p" | sa' p where "b = skillBadge clock sa' p"
      by auto
    then show "(\<forall>r \<in> set (studentsEarned b).
         earned r \<and> earnedAt r \<noteq> None \<and> skillScore r = Some (progress r)) \<and>
      (\<forall>r \<in> set (studentsNotEarned b).
         \<not> earned r \<and> earnedAt r = None \<and> skillScore r = Some (progress r))"
    proof cases
      case 1
      then show ?thesis by (simp add: emptyBadge_def split: prod.splits)
    next
      case 2
      then show ?thesis using skillBadge_invariant [of clock sa' p] by simp
    qed
  qed
next
  assume h: "getAllByCourse api courseId = Resolved (Some ms) \<and> ms \<noteq> [] \<and>
    getCourseStudentAnalytics api courseId = Resolved sa \<and> i < length (uniqueSkills ms)"
  define sk where "sk = uniqueSkills ms ! i"
  define b where "b = badges (loadBadges api clock courseId st) ! i"
  define ss where "ss = responseStudents sa"
  have b: "b = skillBadge clock sa (i, sk)"
    unfolding b_def sk_def using h by (intro badge_at_analytics) simp_all
  have e: "map progress (studentsEarned b) =
            map (\<lambda>s. skillScoreOf s sk) (filter (\<lambda>s. js_ge (skillScoreOf s sk) (Finite 80)) ss)"
    unfolding b skillBadge_partitions ss_def by (rule map_progress_statusOf)
  have n: "map progress (studentsNotEarned b) =
            map (\<lambda>s. skillScoreOf s sk) (filter (\<lambda>s. \<not> js_ge (skillScoreOf s sk) (Finite 80)) ss)"
    unfolding b skillBadge_partitions ss_def by (rule map_progress_statusOf)
  have z: "\<forall>s \<in> set ss.
             skillBreakdown s = None \<or> (\<exists>sb. skillBreakdown s = Some sb \<and> sb sk = None) \<longrightarrow>
               \<lparr>sid = student_id s, sname = student_name s, earned = False, progress = Finite 0,
                earnedAt = None, skillScore = Some (Finite 0)\<rparr> \<in> set (studentsNotEarned b)"
  proof (intro ballI impI)
    fix s assume s: "s \<in> set ss"
      and no: "skillBreakdown s = None \<or> (\<exists>sb. skillBreakdown s = Some sb \<and> sb sk = None)"
    have z0: "skillScoreOf s sk = Finite 0" using no by (rule skillScoreOf_no_entry)
    from s obtain j where j: "j < length ss" "ss ! j = s" by (auto simp: in_set_conv_nth)
    then have mem: "(j, s) \<in> set (enumerate 0 ss)"
      by (auto simp: in_set_enumerate_eq)
    have "statusOf (clock i) sk (j, s) \<in> set (studentsNotEarned b)"
      unfolding b skillBadge_partitions ss_def [symmetric] using mem by (auto simp: z0)
    then show "\<lparr>sid = student_id s, sname = student_name s, earned = False, progress = Finite 0,
                earnedAt = None, skillScore = Some (Finite 0)\<rparr> \<in> set (studentsNotEarned b)"
      by (simp add: statusOf_def z0)
  qed
  from e n z show "let b = badges (loadBadges api clock courseId st) ! i;
           sk = uniqueSkills ms ! i;
           ss = responseStudents sa
       in map progress (studentsEarned b) =
            map (\<lambda>s. skillScoreOf s sk) (filter (\<lambda>s. js_ge (skillScoreOf s sk) (Finite 80)) ss) \<and>
          map progress (studentsNotEarned b) =
            map (\<lambda>s. skillScoreOf s sk) (filter (\<lambda>s. \<not> js_ge (skillScoreOf s sk) (Finite 80)) ss) \<and>
          (\<forall>s \<in> set ss.
             skillBreakdown s = None \<or> (\<exists>sb. skillBreakdown s = Some sb \<and> sb sk = None) \<longrightarrow>
               \<lparr>sid = student_id s, sname = student_name s, earned = False, progress = Finite 0,
                earnedAt = None, skillScore = Some (Finite 0)\<rparr> \<in> set (studentsNotEarned b))"
    unfolding Let_def b_def sk_def ss_def by blast
qed

theorem C10_status_records_witness:
  "getAllByCourse demoApi ''c1'' = Resolved (Some demoMatrices) \<and> demoMatrices \<noteq> [] \<and>
   getCourseStudentAnalytics demoApi ''c1'' = Resolved (Some \<lparr>students = Some demoStudents\<rparr>) \<and>
   (1::nat) < length (uniqueSkills demoMatrices) \<and>
   map progress (studentsEarned (badges (loadBadges demoApi demoClock ''c1'' demoDashboard) ! 1))
     = [Finite 85] \<and>
   map progress (studentsNotEarned (badges (loadBadges demoApi demoClock ''c1'' demoDashboard) ! 1))
     = [Finite 60, Finite 0] \<and>
   \<lparr>sid = ''s3'', sname = ''Cy'', earned = False, progress = Finite 0,
    earnedAt = None, skillScore = Some (Finite 0)\<rparr>
     \<in> set (studentsNotEarned (badges (loadBadges demoApi demoClock ''c1'' demoDashboard) ! 1))"
proof -
  have h1: "getAllByCourse demoApi ''c1'' = Resolved (Some demoMatrices)"
    and h3: "getCourseStudentAnalytics demoApi ''c1'' = Resolved (Some \<lparr>students = Some demoStudents\<rparr>)"
    by (simp_all add: demoApi_def)
  have h2: "demoMatrices \<noteq> []" by (simp add: demoMatrices_def)
  have h5: "(1::nat) < length (uniqueSkills demoMatrices)" by (simp add: uniqueSkills_demo)
  have rs: "responseStudents (Some \<lparr>students = Some demoStudents\<rparr>) = demoStudents"
    by (simp add: responseStudents_def)
  note w = C10_status_records [where api = demoApi and clock = demoClock and courseId = "''c1''"
      and st = demoDashboard and ms = demoMatrices and sa = "Some \<lparr>students = Some demoStudents\<rparr>"
      and i = 1]
  have third: "\<lparr>student_id = ''s3'', student_name = ''Cy'', skillBreakdown = None\<rparr> \<in> set demoStudents"
    by (simp add: demoStudents_def)
  from w h1 h2 h3 h5 have
    e: "map progress (studentsEarned (badges (loadBadges demoApi demoClock ''c1'' demoDashboard) ! 1)) =
          map (\<lambda>s. skillScoreOf s ''Loops'')
            (filter (\<lambda>s. js_ge (skillScoreOf s ''Loops'') (Finite 80)) demoStudents)"
    and n: "map progress (studentsNotEarned (badges (loadBadges demoApi demoClock ''c1'' demoDashboard) ! 1)) =
          map (\<lambda>s. skillScoreOf s ''Loops'')
            (filter (\<lambda>s. \<not> js_ge (skillScoreOf s ''Loops'') (Finite 80)) demoStudents)"
    and z: "\<forall>s \<in> set demoStudents.
             skillBreakdown s = None \<or> (\<exists>sb. skillBreakdown s = Some sb \<and> sb ''Loops'' = None) \<longrightarrow>
               \<lparr>sid = student_id s, sname = student_name s, earned = False, progress = Finite 0,
                earnedAt = None, skillScore = Some (Finite 0)\<rparr>
               \<in> set (studentsNotEarned (badges (loadBadges demoApi demoClock ''c1'' demoDashboard) ! 1))"
    by (simp_all add: Let_def uniqueSkills_demo rs)
  have e': "map progress (studentsEarned (badges (loadBadges demoApi demoClock ''c1'' demoDashboard) ! 1))
     = [Finite 85]"
    unfolding e by (simp add: demoStudents_def skillScoreOf_def orNumber_def)
  have n': "map progress (studentsNotEarned (badges (loadBadges demoApi demoClock ''c1'' demoDashboard) ! 1))
     = [Finite 60, Finite 0]"
    unfolding n by (simp add: demoStudents_def skillScoreOf_def orNumber_def)
  have z': "\<lparr>sid = ''s3'', sname = ''Cy'', earned = False, progress = Finite 0,
    earnedAt = None, skillScore = Some (Finite 0)\<rparr>
     \<in> set (studentsNotEarned (badges (loadBadges demoApi demoClock ''c1'' demoDashboard) ! 1))"
    using bspec [OF z third] by simp
  from h1 h2 h3 h5 e' n' z' show ?thesis by blast
qed

section \<open>Properties of the student badge lookup\<close>

text \<open>
  C8. When the student id is empty or consists of white space only, \<open>handleSearch\<close> raises
  the toast that asks for a student id and does nothing else: it makes no request, and the
  badge list, the badge count and the rest of the state stay as they were.
\<close>

theorem C8_blank_student_id_rejected:
  assumes "\<forall>c \<in> set (studentId st). isWhiteSpace c"
  shows "trim (studentId st) = [] \<and>
         handleSearch api st =
           st\<lparr>effects := effects st @ [ToastError ''Please enter a student ID'']\<rparr> \<and>
         foundBadges (handleSearch api st) = foundBadges st \<and>
         totalBadges (handleSearch api st) = totalBadges st \<and>
         (\<forall>r. Request r \<notin> set (drop (length (effects st)) (effects (handleSearch api st))))"
proof -
  have t: "trim (studentId st) = []"
    using assms by (simp add: trim_empty_iff)
  show ?thesis
    by (simp add: t handleSearch_blank [OF t])
qed

theorem C8_blank_student_id_rejected_witness:
  "isWhiteSpace CHR '' '' \<and> isWhiteSpace (CHR 0x09) \<and> isWhiteSpace (CHR 0xA0) \<and>
   handleSearch demoApi (demoLookup\<lparr>studentId := [CHR '' '', CHR 0x09, CHR 0xA0]\<rparr>) =
     \<lparr>studentId = [CHR '' '', CHR 0x09, CHR 0xA0], foundBadges = [], totalBadges = 0,
      searching = False, searched = False,
      effects = [ToastError ''Please enter a student ID'']\<rparr> \<and>
   handleSearch demoApi (demoLookup\<lparr>studentId := ''''\<rparr>) =
     \<lparr>studentId = '''', foundBadges = [], totalBadges = 0,
      searching = False, searched = False,
      effects = [ToastError ''Please enter a student ID'']\<rparr>"
proof -
  have ws: "isWhiteSpace CHR '' ''" "isWhiteSpace (CHR 0x09)" "isWhiteSpace (CHR 0xA0)"
    by (simp_all add: isWhiteSpace_def)
  have h1: "\<forall>c \<in> set (studentId (demoLookup\<lparr>studentId := [CHR '' '', CHR 0x09, CHR 0xA0]\<rparr>)). isWhiteSpace c"
    using ws by simp
  have h2: "\<forall>c \<in> set (studentId (demoLookup\<lparr>studentId := ''''\<rparr>)). isWhiteSpace c"
    by simp
  show ?thesis
    using C8_blank_student_id_rejected [OF h1, of demoApi]
      C8_blank_student_id_rejected [OF h2, of demoApi] ws
    by (simp add: demoLookup_def)
qed



end
